theory Spec2Isabelle
  imports Main
begin

section \<open>The empty-index query strategy \<open>GPTEmptyIndexQuery\<close>\<close>

text \<open>
  A shallow embedding of \<^verbatim>\<open>gpt_index/indices/empty/query.py\<close>. The class has a
  constructor, two query methods (\<^verbatim>\<open>retrieve\<close>, \<^verbatim>\<open>synthesize\<close>) and a factory
  (\<^verbatim>\<open>from_args\<close>). Everything it calls lives in other modules: the prediction service,
  the base class, the \<^verbatim>\<open>Response\<close> dataclass, the response-mode enumeration and the
  default template. Calls into those modules are effects; they are modelled by explicit
  state passing over a \<open>world\<close> that holds the state of the collaborators and a trace of
  every call made into them, so that "calls exactly once" and "no side effect" are
  statements about the trace and the state.
\<close>

subsection \<open>Python values and truth\<close>

text \<open>
  The constructor applies Python's \<^verbatim>\<open>or\<close> to its \<^verbatim>\<open>input_prompt\<close> argument, so the
  truth value of that argument matters. The annotation is
  \<^verbatim>\<open>Optional[SimpleInputPrompt]\<close>, but Python does not enforce it, so the argument
  ranges over Python values: \<^verbatim>\<open>None\<close>, booleans, integers, strings, lists, and
  template objects.
\<close>

text \<open>
  Modelled from the spec: the class \<^verbatim>\<open>SimpleInputPrompt\<close> is not part of this file. The
  spec describes a template as an immutable value whose one capability is the
  substitution of a single named slot; a class that defines neither \<^verbatim>\<open>__bool__\<close> nor
  \<^verbatim>\<open>__len__\<close> has instances that are all true, which is what \<open>truthy\<close> says of
  \<open>PyPrompt\<close>. The contents of a template stay abstract (the type variable \<open>'p\<close>).
\<close>

datatype 'p py_value =
    PyNone
  | PyBool bool
  | PyInt int
  | PyStr string
  | PyList "'p py_value list"
  | PyPrompt 'p

fun truthy :: "'p py_value \<Rightarrow> bool" where
  "truthy PyNone = False"
| "truthy (PyBool b) = b"
| "truthy (PyInt i) = (i \<noteq> 0)"
| "truthy (PyStr s) = (s \<noteq> [])"
| "truthy (PyList xs) = (xs \<noteq> [])"
| "truthy (PyPrompt p) = True"

text \<open>Python's \<^verbatim>\<open>a or b\<close>: \<open>a\<close> itself when it is true, else \<open>b\<close>.\<close>

definition py_or :: "'p py_value \<Rightarrow> 'p py_value \<Rightarrow> 'p py_value" where
  "py_or a b = (if truthy a then a else b)"

subsection \<open>Data model\<close>

text \<open>
  Keyword arguments passed on to the prediction service: the names and values of the
  template's substitutions, in call order.
\<close>

type_synonym kwargs = "(string \<times> string) list"

text \<open>
  The query bundle: only \<^verbatim>\<open>query_str\<close> is read here. The other fields of a bundle
  are the extension part of the record scheme.
\<close>

record QueryBundle =
  query_str :: string

text \<open>
  Modelled from the spec: the response-mode enumeration is declared in another module.
  The spec requires a \<^verbatim>\<open>GENERATION\<close> member; the remaining members are drawn from the
  type variable \<open>'o\<close>.
\<close>

datatype 'o ResponseMode = GENERATION | OtherMode 'o

text \<open>
  Modelled from the spec: \<^verbatim>\<open>RESPONSE_TYPE\<close> is the union of \<^verbatim>\<open>Response\<close> and
  \<^verbatim>\<open>StreamingResponse\<close>, both declared in another module. The spec describes a
  response as the generated text together with optional source-node provenance, and
  the \<^verbatim>\<open>Response\<close> produced here as text with an empty source-node list.
  \<open>Response_init\<close> is the constructor call: the text, and the source nodes when the
  caller passes them (\<open>None\<close> is the omitted argument, which the dataclass fills with
  an empty list).
\<close>

datatype ('r, 'n) RESPONSE_TYPE =
    Response (response_text: 'r) (source_nodes: "'n list")
  | StreamingResponse (response_gen: 'r) (source_nodes: "'n list")

definition Response_init :: "'r \<Rightarrow> 'n list option \<Rightarrow> ('r, 'n) RESPONSE_TYPE" where
  "Response_init r source_nodes_arg =
     Response r (case source_nodes_arg of None \<Rightarrow> [] | Some ns \<Rightarrow> ns)"

subsection \<open>The collaborators and the world\<close>

text \<open>
  The prediction service, as the spec's external interface gives it:
  \<^verbatim>\<open>predict(template, **substitutions)\<close> and
  \<^verbatim>\<open>predict_with_stream(template, is_last, **substitutions)\<close>, each returning a pair
  of text and metadata or raising. A service is a pair of state transformers over its
  own state \<open>'s\<close>; a raised exception is \<open>Inl\<close>.
\<close>

record ('p, 's, 'x, 'r, 'm) llm_predictor =
  predict :: "'p py_value \<Rightarrow> kwargs \<Rightarrow> 's \<Rightarrow> ('x + 'r \<times> 'm) \<times> 's"
  predict_with_stream :: "'p py_value \<Rightarrow> bool \<Rightarrow> kwargs \<Rightarrow> 's \<Rightarrow> ('x + 'r \<times> 'm) \<times> 's"

record ('p, 's, 'x, 'r, 'm) ServiceContext =
  llm_predictor :: "('p, 's, 'x, 'r, 'm) llm_predictor"

text \<open>One entry of the trace for each call that leaves this module.\<close>

datatype ('p, 'o, 'k) ext_call =
    Predict "'p py_value" kwargs
  | PredictWithStream "'p py_value" bool kwargs
  | BaseFromArgs "'o ResponseMode" 'k

record ('p, 'o, 'k, 's) world =
  trace :: "('p, 'o, 'k) ext_call list"
  ext_state :: 's

definition call_predict ::
  "('p, 's, 'x, 'r, 'm) llm_predictor \<Rightarrow> 'p py_value \<Rightarrow> kwargs \<Rightarrow> ('p, 'o, 'k, 's) world
     \<Rightarrow> ('x + 'r \<times> 'm) \<times> ('p, 'o, 'k, 's) world" where
  "call_predict lp prompt kw w =
     (case predict lp prompt kw (ext_state w) of
        (res, s') \<Rightarrow> (res, \<lparr>trace = trace w @ [Predict prompt kw], ext_state = s'\<rparr>))"

definition call_predict_with_stream ::
  "('p, 's, 'x, 'r, 'm) llm_predictor \<Rightarrow> 'p py_value \<Rightarrow> bool \<Rightarrow> kwargs
     \<Rightarrow> ('p, 'o, 'k, 's) world \<Rightarrow> ('x + 'r \<times> 'm) \<times> ('p, 'o, 'k, 's) world" where
  "call_predict_with_stream lp prompt is_last kw w =
     (case predict_with_stream lp prompt is_last kw (ext_state w) of
        (res, s') \<Rightarrow>
          (res, \<lparr>trace = trace w @ [PredictWithStream prompt is_last kw], ext_state = s'\<rparr>))"

subsection \<open>The class\<close>

text \<open>
  The instance attributes that the methods read. \<^verbatim>\<open>_service_context\<close> and
  \<^verbatim>\<open>_streaming\<close> are stored by the base initialiser, \<^verbatim>\<open>_input_prompt\<close> by this
  class.
\<close>

record ('p, 's, 'x, 'r, 'm) BaseGPTIndexQuery =
  self_service_context :: "('p, 's, 'x, 'r, 'm) ServiceContext"
  self_streaming :: bool

record ('p, 's, 'x, 'r, 'm) GPTEmptyIndexQuery = "('p, 's, 'x, 'r, 'm) BaseGPTIndexQuery" +
  self_input_prompt :: "'p py_value"

text \<open>
  Modelled from the spec: the base initialiser is in another module. The spec says the
  keyword configuration forwarded to it carries the streaming flag and the service
  context reference, owned by the base; \<open>BaseGPTIndexQuery_init\<close> stores these two.
\<close>

record ('p, 's, 'x, 'r, 'm) base_kwargs =
  service_context :: "('p, 's, 'x, 'r, 'm) ServiceContext"
  streaming :: bool

definition BaseGPTIndexQuery_init ::
  "('p, 's, 'x, 'r, 'm) base_kwargs \<Rightarrow> ('p, 's, 'x, 'r, 'm) BaseGPTIndexQuery" where
  "BaseGPTIndexQuery_init kw =
     \<lparr>self_service_context = service_context kw, self_streaming = streaming kw\<rparr>"

text \<open>
  \<^verbatim>\<open>__init__(self, input_prompt=None, **kwargs)\<close>. An omitted argument is \<open>None\<close> here
  and takes the declared default, Python's \<^verbatim>\<open>None\<close>. The module-level constant
  \<^verbatim>\<open>DEFAULT_SIMPLE_INPUT_PROMPT\<close> is imported from another module and is the first
  parameter.
\<close>

definition init ::
  "'p \<Rightarrow> 'p py_value option \<Rightarrow> ('p, 's, 'x, 'r, 'm) base_kwargs
     \<Rightarrow> ('p, 's, 'x, 'r, 'm) GPTEmptyIndexQuery" where
  "init DEFAULT_SIMPLE_INPUT_PROMPT input_prompt_arg kw =
     (let input_prompt = (case input_prompt_arg of None \<Rightarrow> PyNone | Some v \<Rightarrow> v)
      in BaseGPTIndexQuery.extend (BaseGPTIndexQuery_init kw)
           (GPTEmptyIndexQuery.fields
              (py_or input_prompt (PyPrompt DEFAULT_SIMPLE_INPUT_PROMPT))))"

text \<open>\<^verbatim>\<open>retrieve\<close>: drops its argument and returns the empty list.\<close>

definition retrieve ::
  "('p, 's, 'x, 'r, 'm) GPTEmptyIndexQuery \<Rightarrow> 'a QueryBundle_scheme \<Rightarrow> ('p, 'o, 'k, 's) world
     \<Rightarrow> ('x + 'n list) \<times> ('p, 'o, 'k, 's) world" where
  "retrieve self query_bundle w = (Inr [], w)"

text \<open>
  \<^verbatim>\<open>synthesize\<close>: both arguments \<open>nodes\<close> and \<open>additional_source_nodes\<close> (optional,
  default \<^verbatim>\<open>None\<close>) are deleted on entry. There is no \<^verbatim>\<open>try\<close>: an exception of the
  service ends the method with that exception.
\<close>

definition synthesize ::
  "('p, 's, 'x, 'r, 'm) GPTEmptyIndexQuery \<Rightarrow> 'a QueryBundle_scheme \<Rightarrow> 'n list
     \<Rightarrow> 'n list option \<Rightarrow> ('p, 'o, 'k, 's) world
     \<Rightarrow> ('x + ('r, 'n) RESPONSE_TYPE) \<times> ('p, 'o, 'k, 's) world" where
  "synthesize self query_bundle nodes additional_source_nodes w =
     (if \<not> self_streaming self then
        (case call_predict (llm_predictor (self_service_context self))
                (self_input_prompt self) [(''query_str'', query_str query_bundle)] w of
           (Inl e, w') \<Rightarrow> (Inl e, w')
         | (Inr (response, _), w') \<Rightarrow> (Inr (Response_init response None), w'))
      else
        (let llm_predictor = llm_predictor (self_service_context self)
         in case call_predict_with_stream llm_predictor
                  (self_input_prompt self) True [(''query_str'', query_str query_bundle)] w of
              (Inl e, w') \<Rightarrow> (Inl e, w')
            | (Inr (response, _), w') \<Rightarrow> (Inr (Response_init response None), w')))"

text \<open>
  \<^verbatim>\<open>from_args(cls, response_mode=ResponseMode.GENERATION, **kwargs)\<close>. The exception
  raised here is \<open>ValueError\<close> with its message; an exception raised inside the base
  factory is a different exception object, raised elsewhere, and is \<open>BaseRaised\<close>. The
  base factory is in another module (it is the one that constructs the instance) and
  is the first parameter; calling it is recorded in the trace.
\<close>

datatype 'x factory_error = ValueError string | BaseRaised 'x

definition call_base_from_args ::
  "('o ResponseMode \<Rightarrow> 'k \<Rightarrow> 's \<Rightarrow> ('x + 'q) \<times> 's) \<Rightarrow> 'o ResponseMode \<Rightarrow> 'k
     \<Rightarrow> ('p, 'o, 'k, 's) world \<Rightarrow> ('x factory_error + 'q) \<times> ('p, 'o, 'k, 's) world" where
  "call_base_from_args super_from_args response_mode kw w =
     (case super_from_args response_mode kw (ext_state w) of
        (res, s') \<Rightarrow>
          (case res of Inl e \<Rightarrow> Inl (BaseRaised e) | Inr q \<Rightarrow> Inr q,
           \<lparr>trace = trace w @ [BaseFromArgs response_mode kw], ext_state = s'\<rparr>))"

definition from_args ::
  "('o ResponseMode \<Rightarrow> 'k \<Rightarrow> 's \<Rightarrow> ('x + 'q) \<times> 's) \<Rightarrow> 'o ResponseMode option \<Rightarrow> 'k
     \<Rightarrow> ('p, 'o, 'k, 's) world \<Rightarrow> ('x factory_error + 'q) \<times> ('p, 'o, 'k, 's) world" where
  "from_args super_from_args response_mode_arg kw w =
     (let response_mode = (case response_mode_arg of None \<Rightarrow> GENERATION | Some m \<Rightarrow> m)
      in if response_mode \<noteq> GENERATION then
           (Inl (ValueError ''response_mode should not be specified for empty query''), w)
         else call_base_from_args super_from_args response_mode kw w)"

subsection \<open>Concrete configurations\<close>

text \<open>
  Small configurations on which the properties below are evaluated. Templates are
  strings, the state of the service is a call counter, exceptions are strings, and the
  metadata is a token count. \<open>echo_predictor\<close> answers with the query it was given;
  \<open>failing_predictor\<close> raises on every call.
\<close>

type_synonym ex_predictor = "(string, nat, string, string, nat) llm_predictor"
type_synonym ex_world = "(string, string, unit, nat) world"

fun lookup_kw :: "kwargs \<Rightarrow> string \<Rightarrow> string" where
  "lookup_kw [] k = []"
| "lookup_kw ((k', v) # kw) k = (if k' = k then v else lookup_kw kw k)"

definition echo_predictor :: ex_predictor where
  "echo_predictor =
     \<lparr>predict = (\<lambda>p kw s. (Inr (''answer to '' @ lookup_kw kw ''query_str'', 7), Suc s)),
      predict_with_stream =
        (\<lambda>p is_last kw s. (Inr (''stream for '' @ lookup_kw kw ''query_str'', 0), Suc s))\<rparr>"

definition failing_predictor :: ex_predictor where
  "failing_predictor =
     \<lparr>predict = (\<lambda>p kw s. (Inl ''timeout'', Suc s)),
      predict_with_stream = (\<lambda>p is_last kw s. (Inl ''provider error'', Suc s))\<rparr>"

definition ex_kwargs :: "ex_predictor \<Rightarrow> bool \<Rightarrow> (string, nat, string, string, nat) base_kwargs" where
  "ex_kwargs lp b = \<lparr>service_context = \<lparr>llm_predictor = lp\<rparr>, streaming = b\<rparr>"

definition ex_bundle :: QueryBundle where
  "ex_bundle = \<lparr>query_str = ''capital of France''\<rparr>"

definition w0 :: ex_world where
  "w0 = \<lparr>trace = [], ext_state = 0\<rparr>"

text \<open>A base factory that returns the mode and the keyword arguments it was given.\<close>

definition ex_base_from_args ::
  "string ResponseMode \<Rightarrow> unit \<Rightarrow> nat \<Rightarrow> (string + string ResponseMode \<times> unit) \<times> nat" where
  "ex_base_from_args m kw s = (Inr (m, kw), Suc s)"

section \<open>Properties\<close>

subsection \<open>Unfolding the methods\<close>

lemma synthesize_blocking:
  assumes "\<not> self_streaming self"
    and "predict (llm_predictor (self_service_context self)) (self_input_prompt self)
           [(''query_str'', query_str qb)] (ext_state w) = (res, s')"
  shows "synthesize self qb nodes asn w =
           (case res of Inl e \<Rightarrow> Inl e | Inr (text, meta) \<Rightarrow> Inr (Response text []),
            \<lparr>trace = trace w @ [Predict (self_input_prompt self) [(''query_str'', query_str qb)]],
             ext_state = s'\<rparr>)"
  using assms
  by (simp add: synthesize_def call_predict_def Response_init_def split: sum.splits prod.splits)

lemma synthesize_streaming:
  assumes "self_streaming self"
    and "predict_with_stream (llm_predictor (self_service_context self)) (self_input_prompt self)
           True [(''query_str'', query_str qb)] (ext_state w) = (res, s')"
  shows "synthesize self qb nodes asn w =
           (case res of Inl e \<Rightarrow> Inl e | Inr (text, meta) \<Rightarrow> Inr (Response text []),
            \<lparr>trace = trace w @
               [PredictWithStream (self_input_prompt self) True [(''query_str'', query_str qb)]],
             ext_state = s'\<rparr>)"
  using assms
  by (simp add: synthesize_def call_predict_with_stream_def Response_init_def
        split: sum.splits prod.splits)

lemma init_fields:
  "self_streaming (init d a kw) = streaming kw"
  "self_service_context (init d a kw) = service_context kw"
  "self_input_prompt (init d a kw) =
     py_or (case a of None \<Rightarrow> PyNone | Some v \<Rightarrow> v) (PyPrompt d)"
  by (simp_all add: init_def BaseGPTIndexQuery_init_def BaseGPTIndexQuery.defs
        GPTEmptyIndexQuery.defs)

lemma synthesize_call:
  "snd (synthesize self qb nodes asn w) =
     \<lparr>trace = trace w @
        [if self_streaming self
         then PredictWithStream (self_input_prompt self) True [(''query_str'', query_str qb)]
         else Predict (self_input_prompt self) [(''query_str'', query_str qb)]],
      ext_state =
        snd (if self_streaming self
             then predict_with_stream (llm_predictor (self_service_context self))
                    (self_input_prompt self) True [(''query_str'', query_str qb)] (ext_state w)
             else predict (llm_predictor (self_service_context self))
                    (self_input_prompt self) [(''query_str'', query_str qb)] (ext_state w))\<rparr>"
  by (simp add: synthesize_def call_predict_def call_predict_with_stream_def
        split: sum.splits prod.splits)

lemma synthesize_result:
  "fst (synthesize self qb nodes asn w) =
     (case fst (if self_streaming self
                then predict_with_stream (llm_predictor (self_service_context self))
                       (self_input_prompt self) True [(''query_str'', query_str qb)] (ext_state w)
                else predict (llm_predictor (self_service_context self))
                       (self_input_prompt self) [(''query_str'', query_str qb)] (ext_state w)) of
        Inl e \<Rightarrow> Inl e
      | Inr (text, meta) \<Rightarrow> Inr (Response text []))"
  by (simp add: synthesize_def call_predict_def call_predict_with_stream_def Response_init_def
        split: sum.splits prod.splits)

lemma from_args_cases:
  "from_args base arg kw w =
     (if arg = None \<or> arg = Some GENERATION then call_base_from_args base GENERATION kw w
      else (Inl (ValueError ''response_mode should not be specified for empty query''), w))"
  by (cases arg) (simp_all add: from_args_def)

lemma call_base_from_args_trace:
  "trace (snd (call_base_from_args base m kw w)) = trace w @ [BaseFromArgs m kw]"
  by (simp add: call_base_from_args_def split: prod.splits)

lemma call_base_from_args_result:
  "fst (call_base_from_args base m kw w) =
     (case fst (base m kw (ext_state w)) of Inl e \<Rightarrow> Inl (BaseRaised e) | Inr q \<Rightarrow> Inr q)"
  by (simp add: call_base_from_args_def split: prod.splits)

lemma ex_kwargs_fields:
  "streaming (ex_kwargs lp b) = b"
  "llm_predictor (service_context (ex_kwargs lp b)) = lp"
  by (simp_all add: ex_kwargs_def)

subsection \<open>retrieve\<close>

text \<open>
  C4. For every instance, every query bundle and every world, \<open>retrieve\<close> returns the
  empty list of scored nodes: it does not raise (the result is \<open>Inr\<close>), the result does
  not depend on the bundle, and the world after the call is the world before it (nothing
  was called, no state changed).
\<close>

theorem retrieve_empty_no_effect:
  "retrieve self query_bundle w = (Inr [], w)"
  by (simp add: retrieve_def)

theorem retrieve_empty_no_effect_witness:
  "retrieve (init ''{query_str}'' None (ex_kwargs echo_predictor False)) ex_bundle w0
     = (Inr ([] :: nat list), w0)"
  using retrieve_empty_no_effect
          [of "init ''{query_str}'' None (ex_kwargs echo_predictor False)" ex_bundle w0]
  by simp

subsection \<open>synthesize\<close>

text \<open>
  C1. On a non-streaming instance, \<open>synthesize\<close> makes exactly one call that leaves the
  module, \<open>predict\<close>, with the configured template and the single keyword argument
  \<open>query_str\<close> bound to the bundle's query string (the service performs the
  substitution); the state of the service afterwards is the state after that one call.
  When the service returns a text, the result is a \<open>Response\<close> holding that text
  unchanged.
\<close>

theorem synthesize_non_streaming_predict_once:
  assumes "\<not> self_streaming self"
    and "predict (llm_predictor (self_service_context self)) (self_input_prompt self)
           [(''query_str'', query_str query_bundle)] (ext_state w) = (res, s')"
  shows "snd (synthesize self query_bundle nodes additional_source_nodes w) =
           \<lparr>trace = trace w @
              [Predict (self_input_prompt self) [(''query_str'', query_str query_bundle)]],
            ext_state = s'\<rparr>
         \<and> (\<forall>text meta. res = Inr (text, meta) \<longrightarrow>
               fst (synthesize self query_bundle nodes additional_source_nodes w) =
                 Inr (Response text []))"
  using synthesize_blocking [OF assms, of nodes additional_source_nodes]
  by simp

theorem synthesize_non_streaming_predict_once_witness:
  "synthesize (init ''{query_str}'' None (ex_kwargs echo_predictor False)) ex_bundle
       ([] :: nat list) None w0
     = (Inr (Response ''answer to capital of France'' []),
        \<lparr>trace = [Predict (PyPrompt ''{query_str}'') [(''query_str'', ''capital of France'')]],
         ext_state = 1\<rparr>)"
proof -
  let ?self = "init ''{query_str}'' None (ex_kwargs echo_predictor False)"
  have ns: "\<not> self_streaming ?self"
    by (simp add: init_fields ex_kwargs_fields)
  have p: "predict (llm_predictor (self_service_context ?self)) (self_input_prompt ?self)
             [(''query_str'', query_str ex_bundle)] (ext_state w0)
           = (Inr (''answer to capital of France'', 7), 1)"
    by (simp add: init_fields ex_kwargs_fields echo_predictor_def ex_bundle_def w0_def)
  have prompt: "self_input_prompt ?self = PyPrompt ''{query_str}''"
    by (simp add: init_fields py_or_def)
  from synthesize_non_streaming_predict_once [OF ns p, of "[] :: nat list" None]
  show ?thesis
    by (simp add: prod_eq_iff prompt ex_bundle_def w0_def)
qed

text \<open>
  C2. On a streaming instance, \<open>synthesize\<close> makes exactly one call that leaves the
  module, \<open>predict_with_stream\<close>, with the configured template, \<open>is_last = True\<close> and
  \<open>query_str\<close> bound to the bundle's query string. When the service returns, the result
  is a plain \<open>Response\<close> holding what was returned, never a \<open>StreamingResponse\<close>.
\<close>

theorem synthesize_streaming_plain_response:
  assumes "self_streaming self"
    and "predict_with_stream (llm_predictor (self_service_context self)) (self_input_prompt self)
           True [(''query_str'', query_str query_bundle)] (ext_state w) = (res, s')"
  shows "snd (synthesize self query_bundle nodes additional_source_nodes w) =
           \<lparr>trace = trace w @
              [PredictWithStream (self_input_prompt self) True
                 [(''query_str'', query_str query_bundle)]],
            ext_state = s'\<rparr>
         \<and> (\<forall>text meta. res = Inr (text, meta) \<longrightarrow>
               fst (synthesize self query_bundle nodes additional_source_nodes w) =
                 Inr (Response text []))
         \<and> (\<forall>g ns. fst (synthesize self query_bundle nodes additional_source_nodes w) \<noteq>
               Inr (StreamingResponse g ns))"
  using synthesize_streaming [OF assms, of nodes additional_source_nodes]
  by (simp split: sum.splits prod.splits)

theorem synthesize_streaming_plain_response_witness:
  "synthesize (init ''{query_str}'' None (ex_kwargs echo_predictor True)) ex_bundle
       ([] :: nat list) None w0
     = (Inr (Response ''stream for capital of France'' []),
        \<lparr>trace = [PredictWithStream (PyPrompt ''{query_str}'') True
                    [(''query_str'', ''capital of France'')]],
         ext_state = 1\<rparr>)"
proof -
  let ?self = "init ''{query_str}'' None (ex_kwargs echo_predictor True)"
  have st: "self_streaming ?self"
    by (simp add: init_fields ex_kwargs_fields)
  have p: "predict_with_stream (llm_predictor (self_service_context ?self))
             (self_input_prompt ?self) True [(''query_str'', query_str ex_bundle)] (ext_state w0)
           = (Inr (''stream for capital of France'', 0), 1)"
    by (simp add: init_fields ex_kwargs_fields echo_predictor_def ex_bundle_def w0_def)
  have prompt: "self_input_prompt ?self = PyPrompt ''{query_str}''"
    by (simp add: init_fields py_or_def)
  from synthesize_streaming_plain_response [OF st p, of "[] :: nat list" None]
  show ?thesis
    by (simp add: prod_eq_iff prompt ex_bundle_def w0_def)
qed

text \<open>
  C5. The arguments \<open>nodes\<close> and \<open>additional_source_nodes\<close> have no influence: two
  calls on the same instance, bundle and world return the same result and leave the same
  world (the same calls into the service, the same service state), whatever the two
  arguments are.
\<close>

theorem synthesize_ignores_nodes:
  "synthesize self query_bundle nodes additional_source_nodes w =
   synthesize self query_bundle nodes' additional_source_nodes' w"
  by (simp add: synthesize_def)

theorem synthesize_ignores_nodes_witness:
  "synthesize (init ''{query_str}'' None (ex_kwargs echo_predictor False)) ex_bundle
       [1, 2, 3 :: nat] (Some [4, 5]) w0
   = synthesize (init ''{query_str}'' None (ex_kwargs echo_predictor False)) ex_bundle
       [] None w0"
  using synthesize_ignores_nodes
          [of "init ''{query_str}'' None (ex_kwargs echo_predictor False)" ex_bundle
              "[1, 2, 3 :: nat]" "Some [4, 5]" w0 "[]" None]
  by simp

text \<open>
  C6. An instance constructed with a template object \<open>p\<close> passes \<open>p\<close> to the service,
  on the streaming path and on the non-streaming path alike; an instance constructed
  without a template passes the module-level default.
\<close>

theorem synthesize_uses_configured_prompt:
  "trace (snd (synthesize (init DEFAULT_SIMPLE_INPUT_PROMPT (Some (PyPrompt p)) kw)
                 query_bundle nodes additional_source_nodes w)) =
     trace w @
       [if streaming kw
        then PredictWithStream (PyPrompt p) True [(''query_str'', query_str query_bundle)]
        else Predict (PyPrompt p) [(''query_str'', query_str query_bundle)]]
   \<and> trace (snd (synthesize (init DEFAULT_SIMPLE_INPUT_PROMPT None kw)
                   query_bundle nodes additional_source_nodes w)) =
       trace w @
         [if streaming kw
          then PredictWithStream (PyPrompt DEFAULT_SIMPLE_INPUT_PROMPT) True
                 [(''query_str'', query_str query_bundle)]
          else Predict (PyPrompt DEFAULT_SIMPLE_INPUT_PROMPT)
                 [(''query_str'', query_str query_bundle)]]"
  by (simp add: synthesize_call init_fields py_or_def)

theorem synthesize_uses_configured_prompt_witness:
  "trace (snd (synthesize
                 (init ''{query_str}'' (Some (PyPrompt ''Q: {query_str}''))
                    (ex_kwargs echo_predictor False))
                 ex_bundle ([] :: nat list) None w0)) =
     [Predict (PyPrompt ''Q: {query_str}'') [(''query_str'', ''capital of France'')]]
   \<and> trace (snd (synthesize
                   (init ''{query_str}'' (Some (PyPrompt ''Q: {query_str}''))
                      (ex_kwargs echo_predictor True))
                   ex_bundle ([] :: nat list) None w0)) =
       [PredictWithStream (PyPrompt ''Q: {query_str}'') True
          [(''query_str'', ''capital of France'')]]
   \<and> trace (snd (synthesize (init ''{query_str}'' None (ex_kwargs echo_predictor True))
                   ex_bundle ([] :: nat list) None w0)) =
       [PredictWithStream (PyPrompt ''{query_str}'') True
          [(''query_str'', ''capital of France'')]]"
  using synthesize_uses_configured_prompt
          [of "''{query_str}''" "''Q: {query_str}''" "ex_kwargs echo_predictor False"
              ex_bundle "[] :: nat list" None w0]
        synthesize_uses_configured_prompt
          [of "''{query_str}''" "''Q: {query_str}''" "ex_kwargs echo_predictor True"
              ex_bundle "[] :: nat list" None w0]
  by (simp add: ex_kwargs_fields ex_bundle_def w0_def)

text \<open>
  C7. When the one call into the service raises \<open>e\<close>, \<open>synthesize\<close> ends with the same
  \<open>e\<close>, on either path, and returns no \<open>Response\<close>.
\<close>

theorem synthesize_propagates_failure:
  assumes "(if self_streaming self
            then predict_with_stream (llm_predictor (self_service_context self))
                   (self_input_prompt self) True [(''query_str'', query_str query_bundle)]
                   (ext_state w)
            else predict (llm_predictor (self_service_context self))
                   (self_input_prompt self) [(''query_str'', query_str query_bundle)]
                   (ext_state w)) = (Inl e, s')"
  shows "fst (synthesize self query_bundle nodes additional_source_nodes w) = Inl e
         \<and> (\<forall>r. fst (synthesize self query_bundle nodes additional_source_nodes w) \<noteq> Inr r)"
  using assms by (simp add: synthesize_result)

theorem synthesize_propagates_failure_witness:
  "fst (synthesize (init ''{query_str}'' None (ex_kwargs failing_predictor False)) ex_bundle
          ([] :: nat list) None w0) = Inl ''timeout''
   \<and> fst (synthesize (init ''{query_str}'' None (ex_kwargs failing_predictor True)) ex_bundle
            ([] :: nat list) None w0) = Inl ''provider error''"
proof -
  let ?a = "init ''{query_str}'' None (ex_kwargs failing_predictor False)"
  let ?b = "init ''{query_str}'' None (ex_kwargs failing_predictor True)"
  have a: "(if self_streaming ?a
            then predict_with_stream (llm_predictor (self_service_context ?a))
                   (self_input_prompt ?a) True [(''query_str'', query_str ex_bundle)]
                   (ext_state w0)
            else predict (llm_predictor (self_service_context ?a))
                   (self_input_prompt ?a) [(''query_str'', query_str ex_bundle)]
                   (ext_state w0)) = (Inl ''timeout'', 1)"
    by (simp add: init_fields ex_kwargs_fields failing_predictor_def w0_def)
  have b: "(if self_streaming ?b
            then predict_with_stream (llm_predictor (self_service_context ?b))
                   (self_input_prompt ?b) True [(''query_str'', query_str ex_bundle)]
                   (ext_state w0)
            else predict (llm_predictor (self_service_context ?b))
                   (self_input_prompt ?b) [(''query_str'', query_str ex_bundle)]
                   (ext_state w0)) = (Inl ''provider error'', 1)"
    by (simp add: init_fields ex_kwargs_fields failing_predictor_def w0_def)
  from synthesize_propagates_failure [OF a, of "[] :: nat list" None]
       synthesize_propagates_failure [OF b, of "[] :: nat list" None]
  show ?thesis by simp
qed

text \<open>
  C8. Whenever \<open>synthesize\<close> returns a response, its source-node list is empty and its
  text is the text that the service returned, also when non-empty node lists were passed
  to \<open>synthesize\<close>.
\<close>

theorem synthesize_response_no_source_nodes:
  assumes "fst (synthesize self query_bundle nodes additional_source_nodes w) = Inr r"
  shows "source_nodes r = []
         \<and> (\<exists>text meta s'.
               (if self_streaming self
                then predict_with_stream (llm_predictor (self_service_context self))
                       (self_input_prompt self) True [(''query_str'', query_str query_bundle)]
                       (ext_state w)
                else predict (llm_predictor (self_service_context self))
                       (self_input_prompt self) [(''query_str'', query_str query_bundle)]
                       (ext_state w)) = (Inr (text, meta), s')
               \<and> r = Response text [])"
proof -
  let ?out = "if self_streaming self
              then predict_with_stream (llm_predictor (self_service_context self))
                     (self_input_prompt self) True [(''query_str'', query_str query_bundle)]
                     (ext_state w)
              else predict (llm_predictor (self_service_context self))
                     (self_input_prompt self) [(''query_str'', query_str query_bundle)]
                     (ext_state w)"
  obtain res s' where out: "?out = (res, s')"
    by (cases ?out)
  from assms have "(case res of Inl e \<Rightarrow> Inl e | Inr (text, meta) \<Rightarrow> Inr (Response text []))
                   = Inr r"
    by (simp only: synthesize_result out fst_conv)
  then obtain t m where "res = Inr (t, m)" and r: "r = Response t []"
    by (auto split: sum.splits prod.splits)
  with out have "?out = (Inr (t, m), s')"
    by simp
  with r show ?thesis
    by (intro conjI exI [of _ t] exI [of _ m] exI [of _ s']) simp_all
qed

theorem synthesize_response_no_source_nodes_witness:
  "source_nodes (Response ''answer to capital of France'' [] :: (string, nat) RESPONSE_TYPE) = []
   \<and> fst (synthesize (init ''{query_str}'' None (ex_kwargs echo_predictor False)) ex_bundle
            [1, 2, 3 :: nat] (Some [4]) w0) = Inr (Response ''answer to capital of France'' [])"
proof -
  have run: "fst (synthesize (init ''{query_str}'' None (ex_kwargs echo_predictor False))
                    ex_bundle [1, 2, 3 :: nat] (Some [4]) w0)
             = Inr (Response ''answer to capital of France'' [])"
    by (simp add: synthesize_result init_fields ex_kwargs_fields echo_predictor_def
          ex_bundle_def w0_def)
  from synthesize_response_no_source_nodes [OF run] run
  show ?thesis by simp
qed

subsection \<open>The constructor\<close>

text \<open>
  C9. The constructor falls back to the module-level default for every argument that
  Python takes for false, not only for \<open>None\<close> or an omitted argument: the stored
  template is then the default.
\<close>

theorem init_falsy_prompt_uses_default:
  assumes "\<not> truthy v"
  shows "self_input_prompt (init DEFAULT_SIMPLE_INPUT_PROMPT (Some v) kw) =
           PyPrompt DEFAULT_SIMPLE_INPUT_PROMPT
         \<and> self_input_prompt (init DEFAULT_SIMPLE_INPUT_PROMPT None kw) =
             PyPrompt DEFAULT_SIMPLE_INPUT_PROMPT"
  using assms by (simp add: init_fields py_or_def)

theorem init_falsy_prompt_uses_default_witness:
  "self_input_prompt (init ''{query_str}'' (Some (PyStr [])) (ex_kwargs echo_predictor False))
     = PyPrompt ''{query_str}''
   \<and> self_input_prompt (init ''{query_str}'' (Some (PyInt 0)) (ex_kwargs echo_predictor False))
       = PyPrompt ''{query_str}''
   \<and> self_input_prompt (init ''{query_str}'' (Some (PyList [])) (ex_kwargs echo_predictor False))
       = PyPrompt ''{query_str}''"
proof -
  have f: "\<not> truthy (PyStr [] :: string py_value)" "\<not> truthy (PyInt 0 :: string py_value)"
    "\<not> truthy (PyList [] :: string py_value)"
    by simp_all
  from init_falsy_prompt_uses_default
         [OF f(1), of "''{query_str}''" "ex_kwargs echo_predictor False"]
       init_falsy_prompt_uses_default
         [OF f(2), of "''{query_str}''" "ex_kwargs echo_predictor False"]
       init_falsy_prompt_uses_default
         [OF f(3), of "''{query_str}''" "ex_kwargs echo_predictor False"]
  show ?thesis by simp
qed

subsection \<open>The factory\<close>

text \<open>
  C3. For every response mode other than \<open>GENERATION\<close>, \<open>from_args\<close> raises the
  \<open>ValueError\<close> and leaves the world as it was: the base factory, which is what
  constructs the instance, has not been called, and nothing else has run. For
  \<open>GENERATION\<close> the factory is the call of the base factory with that mode and the same
  keyword arguments, and its outcome is never this \<open>ValueError\<close>.
\<close>

theorem from_args_rejects_other_modes:
  "(response_mode \<noteq> GENERATION \<longrightarrow>
      from_args super_from_args (Some response_mode) kw w =
        (Inl (ValueError ''response_mode should not be specified for empty query''), w))
   \<and> from_args super_from_args (Some GENERATION) kw w =
       call_base_from_args super_from_args GENERATION kw w
   \<and> trace (snd (from_args super_from_args (Some GENERATION) kw w)) =
       trace w @ [BaseFromArgs GENERATION kw]
   \<and> (\<forall>msg. fst (from_args super_from_args (Some GENERATION) kw w) \<noteq> Inl (ValueError msg))"
  by (simp add: from_args_cases call_base_from_args_trace call_base_from_args_result
        split: sum.splits)

theorem from_args_rejects_other_modes_witness:
  "from_args ex_base_from_args (Some (OtherMode ''tree_summarize'')) () w0 =
     (Inl (ValueError ''response_mode should not be specified for empty query''), w0)
   \<and> from_args ex_base_from_args (Some GENERATION) () w0 =
       (Inr (GENERATION, ()), \<lparr>trace = [BaseFromArgs GENERATION ()], ext_state = 1\<rparr>)"
  using from_args_rejects_other_modes
          [of "OtherMode ''tree_summarize''" ex_base_from_args "()" w0]
  by (simp add: call_base_from_args_def ex_base_from_args_def w0_def)

text \<open>
  C10. Whenever \<open>from_args\<close> returns an instance, the response mode was \<open>GENERATION\<close>
  (given, or omitted and defaulted), the one call that was made is the call of the base
  factory with \<open>GENERATION\<close> and the caller's keyword arguments, and the instance is the
  one that call returned.
\<close>

theorem from_args_success_forwards_generation:
  assumes "from_args super_from_args response_mode_arg kw w = (Inr q, w')"
  shows "(response_mode_arg = None \<or> response_mode_arg = Some GENERATION)
         \<and> trace w' = trace w @ [BaseFromArgs GENERATION kw]
         \<and> super_from_args GENERATION kw (ext_state w) = (Inr q, ext_state w')"
proof -
  from assms have arg: "response_mode_arg = None \<or> response_mode_arg = Some GENERATION"
    by (simp add: from_args_cases split: if_splits)
  with assms have call: "call_base_from_args super_from_args GENERATION kw w = (Inr q, w')"
    by (simp add: from_args_cases)
  obtain res s' where base: "super_from_args GENERATION kw (ext_state w) = (res, s')"
    by (cases "super_from_args GENERATION kw (ext_state w)")
  from call base have "res = Inr q"
    and "w' = \<lparr>trace = trace w @ [BaseFromArgs GENERATION kw], ext_state = s'\<rparr>"
    by (auto simp: call_base_from_args_def split: sum.splits)
  with arg base show ?thesis by simp
qed

theorem from_args_success_forwards_generation_witness:
  "from_args ex_base_from_args None () w0 =
     (Inr (GENERATION, ()), \<lparr>trace = [BaseFromArgs GENERATION ()], ext_state = 1\<rparr>)
   \<and> ex_base_from_args GENERATION () (ext_state w0) = (Inr (GENERATION, ()), 1)"
proof -
  have run: "from_args ex_base_from_args None () w0 =
               (Inr (GENERATION, ()), \<lparr>trace = [BaseFromArgs GENERATION ()], ext_state = 1\<rparr>)"
    by (simp add: from_args_def call_base_from_args_def ex_base_from_args_def w0_def)
  from from_args_success_forwards_generation [OF run] run
  show ?thesis by simp
qed

end
